theory Spec2Isabelle
  imports Main
begin

section \<open>Strings and the two regular expressions of \<^verbatim>\<open>sync_issue.py\<close>\<close>

text \<open>
  Python strings are modelled as \<^typ>\<open>string\<close>, one \<^typ>\<open>char\<close> per Python character.
  The character classes below are the ASCII part of Python's \<^verbatim>\<open>\w\<close>, \<^verbatim>\<open>\d\<close>,
  \<^verbatim>\<open>\s\<close> and of \<^verbatim>\<open>str.lower\<close>; characters beyond ASCII are outside the model.
\<close>

definition nl :: char where
  "nl = CHR 0x0A"

definition is_digit :: "char \<Rightarrow> bool" where
  "is_digit c = (c \<in> set ''0123456789'')"

definition is_upper :: "char \<Rightarrow> bool" where
  "is_upper c = (c \<in> set ''ABCDEFGHIJKLMNOPQRSTUVWXYZ'')"

definition is_word :: "char \<Rightarrow> bool" where
  "is_word c = (c \<in> set ''abcdefghijklmnopqrstuvwxyzABCDEFGHIJKLMNOPQRSTUVWXYZ0123456789_'')"

definition is_space :: "char \<Rightarrow> bool" where
  "is_space c = (c \<in> set [CHR 0x09, CHR 0x0A, CHR 0x0B, CHR 0x0C, CHR 0x0D,
                           CHR 0x1C, CHR 0x1D, CHR 0x1E, CHR 0x1F, CHR 0x20])"

definition lower_char :: "char \<Rightarrow> char" where
  "lower_char c =
     (case map_of (zip ''ABCDEFGHIJKLMNOPQRSTUVWXYZ'' ''abcdefghijklmnopqrstuvwxyz'') c of
        Some l \<Rightarrow> l
      | None \<Rightarrow> c)"

text \<open>\<^verbatim>\<open>str.lower()\<close>\<close>

definition lower :: "string \<Rightarrow> string" where
  "lower s = map lower_char s"

text \<open>\<^verbatim>\<open>str.startswith(prefix)\<close> and \<^verbatim>\<open>str.endswith(suffix)\<close>\<close>

definition startswith :: "string \<Rightarrow> string \<Rightarrow> bool" where
  "startswith s p = (take (length p) s = p)"

definition endswith :: "string \<Rightarrow> string \<Rightarrow> bool" where
  "endswith s p = (length p \<le> length s \<and> drop (length s - length p) s = p)"

text \<open>\<^verbatim>\<open>sub in s\<close> on strings\<close>

fun contains :: "string \<Rightarrow> string \<Rightarrow> bool" where
  "contains [] sub = (sub = [])"
| "contains (c # cs) sub = (startswith (c # cs) sub \<or> contains cs sub)"

text \<open>\<^verbatim>\<open>str.replace(' ', '-')\<close>: every space becomes a hyphen.\<close>

definition replace_space_hyphen :: "string \<Rightarrow> string" where
  "replace_space_hyphen s = map (\<lambda>c. if c = CHR '' '' then CHR ''-'' else c) s"

text \<open>\<^verbatim>\<open>str(n)\<close> for a non-negative integer: its decimal digits.\<close>

definition digit_char :: "nat \<Rightarrow> char" where
  "digit_char d = ''0123456789'' ! (d mod 10)"

fun str_nat :: "nat \<Rightarrow> string" where
  "str_nat n = (if n < 10 then [digit_char n] else str_nat (n div 10) @ [digit_char (n mod 10)])"

declare str_nat.simps [simp del]

subsection \<open>A backtracking matcher\<close>

text \<open>
  A pattern is run as a list of successes: each piece maps the text still to be read to
  the ways it can match there, the preferred way first, as a pair of what it consumed and
  what is left. Python's \<^verbatim>\<open>re\<close> takes the first way that lets the whole pattern
  succeed, which is the head of the list built below.
\<close>

text \<open>One literal character.\<close>

definition lit :: "char \<Rightarrow> string \<Rightarrow> string list" where
  "lit c s = (case s of [] \<Rightarrow> [] | x # xs \<Rightarrow> if x = c then [xs] else [])"

text \<open>\<^verbatim>\<open>[class]+\<close>, greedy: the longest run first, then each shorter one.\<close>

fun plus_class :: "(char \<Rightarrow> bool) \<Rightarrow> string \<Rightarrow> (string \<times> string) list" where
  "plus_class P [] = []"
| "plus_class P (c # cs) =
     (if P c then map (\<lambda>(m, r). (c # m, r)) (plus_class P cs) @ [([c], cs)] else [])"

text \<open>\<^verbatim>\<open>[class]*\<close>, greedy: as above, and last the empty match.\<close>

definition star_class :: "(char \<Rightarrow> bool) \<Rightarrow> string \<Rightarrow> (string \<times> string) list" where
  "star_class P s = plus_class P s @ [([], s)]"

text \<open>\<^verbatim>\<open>$\<close>: at the end of the text, or just before a newline that ends it.\<close>

definition at_end :: "string \<Rightarrow> bool" where
  "at_end s = (s = [] \<or> s = [nl])"

text \<open>
  The pattern \<^verbatim>\<open>' \([\w]+-[\d]+\)'\<close> of \<^verbatim>\<open>_get_summary\<close>, tried at the start of
  \<open>s\<close>: the texts left after each way of matching.
\<close>

definition slug_at :: "string \<Rightarrow> string list" where
  "slug_at s =
     [r5. r0 \<leftarrow> lit CHR '' '' s, r1 \<leftarrow> lit CHR ''('' r0, (a, r2) \<leftarrow> plus_class is_word r1,
          r3 \<leftarrow> lit CHR ''-'' r2, (d, r4) \<leftarrow> plus_class is_digit r3, r5 \<leftarrow> lit CHR '')'' r4]"

text \<open>
  The pattern \<^verbatim>\<open>'\(([A-Z]+-\d+)\)\s*$'\<close> of \<^verbatim>\<open>_find_jira_issue\<close>, tried at the
  start of \<open>s\<close>: group 1 of each way of matching.
\<close>

definition key_at :: "string \<Rightarrow> string list" where
  "key_at s =
     [a @ ''-'' @ d. r0 \<leftarrow> lit CHR ''('' s, (a, r1) \<leftarrow> plus_class is_upper r0,
          r2 \<leftarrow> lit CHR ''-'' r1, (d, r3) \<leftarrow> plus_class is_digit r2, r4 \<leftarrow> lit CHR '')'' r3,
          (sp, r5) \<leftarrow> star_class is_space r4, at_end r5]"

text \<open>\<^verbatim>\<open>re.search(r'\(([A-Z]+-\d+)\)\s*$', s)\<close>: the leftmost match, as its group 1.\<close>

fun search_key :: "string \<Rightarrow> string option" where
  "search_key [] = None"
| "search_key (c # cs) =
     (case key_at (c # cs) of k # _ \<Rightarrow> Some k | [] \<Rightarrow> search_key cs)"

lemma lit_shorter: "r \<in> set (lit c s) \<Longrightarrow> length r < length s"
  by (auto simp: lit_def split: list.splits if_splits)

lemma plus_class_shorter: "(m, r) \<in> set (plus_class P s) \<Longrightarrow> length r < length s"
  by (induction s arbitrary: m) (fastforce split: if_splits)+

lemma slug_at_shorter: "r \<in> set (slug_at s) \<Longrightarrow> length r < length s"
  unfolding slug_at_def
  by (auto dest!: lit_shorter plus_class_shorter)

text \<open>
  \<^verbatim>\<open>re.sub(r' \([\w]+-[\d]+\)', '', s)\<close>: scanning from the left, every match is
  dropped and the scan goes on after it; a character where no match starts is kept.
\<close>

function sub_slug :: "string \<Rightarrow> string" where
  "sub_slug [] = []"
| "sub_slug (c # cs) =
     (case slug_at (c # cs) of
        r # _ \<Rightarrow> sub_slug r
      | [] \<Rightarrow> c # sub_slug cs)"
  by pat_completeness auto
termination
proof (relation "measure length")
  show "wf (measure length)" by simp
next
  fix c cs r rs
  assume "slug_at (c # cs) = r # rs"
  then have "r \<in> set (slug_at (c # cs))" by simp
  then have "length r < length (c # cs)" by (rule slug_at_shorter)
  then show "(r, c # cs) \<in> measure length" by simp
next
  fix c :: char and cs :: string
  show "(cs, c # cs) \<in> measure length" by simp
qed


section \<open>Data model\<close>

text \<open>
  The exceptions that can leave a handler. \<open>JIRAError\<close> and \<open>GithubException\<close> come
  from the two client libraries, the others are Python's own.
\<close>

datatype error = JIRAError | GithubException | AttributeError | KeyError | TypeError

text \<open>
  The GitHub side of an event, with the fields that \<^verbatim>\<open>sync_issue.py\<close> reads.
  \<open>gh_body\<close> is \<open>None\<close> where the JSON has \<^verbatim>\<open>null\<close>; \<open>gh_pull_request\<close> says
  whether the key \<^verbatim>\<open>'pull_request'\<close> is in the dictionary; a label is given by its
  \<^verbatim>\<open>'name'\<close>.
\<close>

record gh_issue =
  gh_number :: nat
  gh_title :: string
  gh_body :: "string option"
  gh_html_url :: string
  gh_user_login :: string
  gh_labels :: "string list"
  gh_state :: string
  gh_pull_request :: bool

record gh_comment =
  ghc_body :: "string option"
  ghc_html_url :: string
  ghc_user_login :: string

text \<open>
  An event. \<open>ev_sender\<close> is \<open>None\<close> where \<^verbatim>\<open>event['sender']['login']\<close> raises
  \<open>KeyError\<close>; \<open>ev_label\<close> is \<^verbatim>\<open>event['label']\<close>, \<open>ev_comment\<close> is
  \<^verbatim>\<open>event['comment']\<close> and \<open>ev_changes_body_from\<close> is
  \<^verbatim>\<open>event['changes']['body']['from']\<close>; a handler reads only the parts of its own
  kind of event.
\<close>

record event =
  ev_issue :: gh_issue
  ev_sender :: "string option"
  ev_label :: string
  ev_comment :: gh_comment
  ev_changes_body_from :: "string option"

text \<open>
  The JIRA side. A remote link has a \<open>globalId\<close> or not (\<^verbatim>\<open>hasattr(link, 'globalId')\<close>);
  \<open>rl_resolved\<close> is \<^verbatim>\<open>object.status.resolved\<close>.
\<close>

record remote_link =
  rl_globalId :: "string option"
  rl_url :: string
  rl_title :: string
  rl_resolved :: bool
  rl_relationship :: string

text \<open>The \<^verbatim>\<open>issuetype\<close> field: \<^verbatim>\<open>{'id': n}\<close>, or a type name.\<close>

datatype issuetype = TypeId nat | TypeName string

text \<open>
  An issue of the tracker. Its key stands for the issue in every call (the source passes
  \<^verbatim>\<open>issue.id\<close> to \<^verbatim>\<open>add_comment\<close> and \<^verbatim>\<open>issue.key\<close> to \<^verbatim>\<open>comments\<close>; both
  name the same issue). \<open>ji_description\<close> is \<open>None\<close> for an issue without description;
  \<open>ji_comments\<close> are the comment bodies, oldest first.
\<close>

record jira_issue =
  ji_key :: string
  ji_project :: string
  ji_summary :: string
  ji_description :: "string option"
  ji_issuetype :: issuetype
  ji_labels :: "string list"
  ji_components :: "string list"
  ji_customfield_12100 :: "string option"
  ji_remote_links :: "remote_link list"
  ji_comments :: "string list"

text \<open>
  Everything outside the process that a handler reads or changes: the JIRA tracker, the
  titles of the GitHub repository's issues, and what the process has spent.
  \<^item> \<open>issues\<close> is in the order in which the tracker lists issues for
    \<^verbatim>\<open>order by updated desc\<close>; a new issue is put in front.
  \<^item> \<open>projects\<close> gives each project key its component names; \<open>issue_types\<close> is
    \<^verbatim>\<open>jira.issue_types()\<close> as pairs of id and name.
  \<^item> \<open>customfield_writable\<close>: whether an update of \<^verbatim>\<open>customfield_12100\<close> is accepted
    (else it raises \<open>JIRAError\<close>).
  \<^item> \<open>next_issue_number\<close> numbers the next issue created.
  \<^item> \<open>gh_titles\<close> are the titles of the repository's issues by number, and
    \<open>gh_edit_failures\<close> the number of coming \<^verbatim>\<open>edit\<close> calls that raise
    \<open>GithubException\<close>.
  \<^item> \<open>sleeps\<close> lists the arguments of the \<^verbatim>\<open>time.sleep\<close> calls so far, and
    \<open>draws\<close> counts the calls of \<^verbatim>\<open>random.randrange\<close>.
  The remote calls that the model lets fail are \<^verbatim>\<open>jira.issue\<close> and \<^verbatim>\<open>jira.project\<close>
  (no such key), \<^verbatim>\<open>jira.create_issue\<close> (no such project), the update of the custom
  field, \<^verbatim>\<open>REPO.get_issue\<close> (no such number) and the title edit on GitHub; every
  other remote call succeeds. What the handlers print is not modelled.
\<close>

record world =
  issues :: "jira_issue list"
  projects :: "(string \<times> string list) list"
  issue_types :: "(nat \<times> string) list"
  customfield_writable :: bool
  next_issue_number :: nat
  gh_titles :: "nat \<rightharpoonup> string"
  gh_edit_failures :: nat
  sleeps :: "nat list"
  draws :: nat

text \<open>
  What the process is started with.
  \<^item> \<open>environ\<close> is \<^verbatim>\<open>os.environ\<close>.
  \<^item> \<open>markdown2confluence\<close> is the external converter run on the contents of the
    markdown file: \<open>Some\<close> of the contents of the output file, or \<open>None\<close> when the
    command exits with an error (\<^verbatim>\<open>CalledProcessError\<close>).
  \<^item> \<open>random\<close> gives the \<open>n\<close>-th draw of the random generator.
  \<^item> \<open>others\<close> is what other invocations do to the two trackers while this one sleeps
    (its own \<open>sleeps\<close> and \<open>draws\<close> are not theirs to change).
  \<^item> \<open>client_exceptions\<close> says whether \<^verbatim>\<open>jira.exceptions.JIRAError\<close>, looked up on the
    object bound to the parameter \<^verbatim>\<open>jira\<close>, is the \<open>JIRAError\<close> class. The module
    imports \<^verbatim>\<open>JIRAError\<close> by name only, so \<^verbatim>\<open>jira\<close> in \<^verbatim>\<open>_find_jira_issue\<close> is the
    client object; a \<^verbatim>\<open>jira.JIRA\<close> client has no attribute \<^verbatim>\<open>exceptions\<close> and the
    lookup raises \<open>AttributeError\<close>.
\<close>

record env =
  environ :: "string \<rightharpoonup> string"
  markdown2confluence :: "string \<Rightarrow> string option"
  random :: "nat \<Rightarrow> nat"
  others :: "world \<Rightarrow> world"
  client_exceptions :: bool

section \<open>Field mapping\<close>

text \<open>\<^verbatim>\<open>_check_issue_label\<close>: \<open>None\<close> for a label to ignore.\<close>

definition check_issue_label :: "string \<Rightarrow> string option" where
  "check_issue_label label =
     (if startswith (lower label) ''status:'' \<or> startswith (lower label) ''resolution:''
      then None else Some label)"

text \<open>\<^verbatim>\<open>_get_jira_label\<close>, on the label's name.\<close>

definition get_jira_label :: "string \<Rightarrow> string" where
  "get_jira_label gh_label = replace_space_hyphen gh_label"

text \<open>
  \<^verbatim>\<open>_markdown2wiki\<close>. The markdown file holds the text, with a newline added when it
  does not end in one; the ellipsis that replaces the end of a long result is
  \<^verbatim>\<open>'\n\n[...]'\<close>.
\<close>

definition markdown2wiki :: "env \<Rightarrow> string option \<Rightarrow> string" where
  "markdown2wiki e markdown =
     (case markdown of
        None \<Rightarrow> [nl]
      | Some md \<Rightarrow>
          (case markdown2confluence e (if endswith md [nl] then md else md @ [nl]) of
             Some result \<Rightarrow>
               (if length result > 16384 then take 16376 result @ [nl, nl] @ ''[...]''
                else result)
           | None \<Rightarrow> md))"

text \<open>\<^verbatim>\<open>_get_summary\<close>\<close>

definition get_summary :: "gh_issue \<Rightarrow> string" where
  "get_summary gh =
     sub_slug ((if gh_pull_request gh then ''PR'' else ''GH'') @ '' #'' @ str_nat (gh_number gh)
               @ '': '' @ gh_title gh)"

text \<open>\<^verbatim>\<open>_get_description\<close>: the template, with its four names filled in.\<close>

definition get_description :: "env \<Rightarrow> gh_issue \<Rightarrow> string" where
  "get_description e gh =
     ''[GitHub '' @ (if gh_pull_request gh then ''Pull Request'' else ''Issue'') @ ''|''
       @ gh_html_url gh @ ''] from user @'' @ gh_user_login gh @ '':'' @ [nl, nl]
     @ ''    '' @ markdown2wiki e (gh_body gh) @ [nl, nl]
     @ ''    ---'' @ [nl, nl]
     @ ''    Notes:'' @ [nl, nl]
     @ ''    * Do not edit this description text, it may be updated automatically.'' @ [nl]
     @ ''    * Please interact on GitHub where possible, changes will sync to here.'' @ [nl]
     @ ''    ''
     @ (if gh_pull_request gh then []
        else [nl] @ ''    * If closing this issue from a commit, please add'' @ [nl]
          @ ''      {code}'' @ [nl]
          @ ''      Closes '' @ gh_html_url gh @ [nl]
          @ ''      {code}'' @ [nl]
          @ ''      in the commit message so the commit is closed on GitHub automatically.''
          @ [nl])"

text \<open>\<^verbatim>\<open>_get_jira_comment_body\<close>; \<open>body\<close> is \<open>None\<close> when the argument is left out.\<close>

definition get_jira_comment_body :: "env \<Rightarrow> gh_comment \<Rightarrow> string option \<Rightarrow> string" where
  "get_jira_comment_body e c body =
     ''[GitHub issue comment|'' @ ghc_html_url c @ ''] by @'' @ ghc_user_login c @ '':''
     @ [nl, nl]
     @ (case body of None \<Rightarrow> markdown2wiki e (ghc_body c) | Some b \<Rightarrow> b)"


section \<open>The calls on the two trackers\<close>

text \<open>
  \<^verbatim>\<open>jira.search_issues\<close> for the query
  \<^verbatim>\<open>issue in issuesWithRemoteLinksByGlobalId("url") order by updated desc\<close>.
\<close>

definition search_issues :: "world \<Rightarrow> string \<Rightarrow> jira_issue list" where
  "search_issues w url =
     filter (\<lambda>i. Some url \<in> set (map rl_globalId (ji_remote_links i))) (issues w)"

text \<open>\<^verbatim>\<open>jira.issue(key)\<close>\<close>

definition jira_issue_get :: "world \<Rightarrow> string \<Rightarrow> error + jira_issue" where
  "jira_issue_get w k =
     (case find (\<lambda>i. ji_key i = k) (issues w) of None \<Rightarrow> Inl JIRAError | Some i \<Rightarrow> Inr i)"

text \<open>A change of the issue with key \<open>k\<close> on the tracker.\<close>

definition update_issue :: "world \<Rightarrow> string \<Rightarrow> (jira_issue \<Rightarrow> jira_issue) \<Rightarrow> world" where
  "update_issue w k f = w\<lparr>issues := map (\<lambda>i. if ji_key i = k then f i else i) (issues w)\<rparr>"

text \<open>\<^verbatim>\<open>jira.add_comment\<close>, \<^verbatim>\<open>jira.comments\<close> and \<^verbatim>\<open>jira.remote_links\<close>\<close>

definition add_comment :: "world \<Rightarrow> jira_issue \<Rightarrow> string \<Rightarrow> world" where
  "add_comment w issue body =
     update_issue w (ji_key issue) (\<lambda>i. i\<lparr>ji_comments := ji_comments i @ [body]\<rparr>)"

definition comments :: "world \<Rightarrow> string \<Rightarrow> string list" where
  "comments w k = concat (map ji_comments (filter (\<lambda>i. ji_key i = k) (issues w)))"

definition remote_links :: "world \<Rightarrow> string \<Rightarrow> remote_link list" where
  "remote_links w k = concat (map ji_remote_links (filter (\<lambda>i. ji_key i = k) (issues w)))"

text \<open>
  \<^verbatim>\<open>issue.update(fields={'customfield_12100': {'value': v}})\<close>. The issue is \<open>None\<close>
  where the source holds \<^verbatim>\<open>None\<close>, which has no attribute \<^verbatim>\<open>update\<close>.
\<close>

definition update_customfield :: "world \<Rightarrow> jira_issue option \<Rightarrow> string \<Rightarrow> error + world" where
  "update_customfield w issue v =
     (case issue of
        None \<Rightarrow> Inl AttributeError
      | Some i \<Rightarrow>
          if customfield_writable w
          then Inr (update_issue w (ji_key i) (\<lambda>j. j\<lparr>ji_customfield_12100 := Some v\<rparr>))
          else Inl JIRAError)"

text \<open>
  \<^verbatim>\<open>try: issue.update(...) except JIRAError as error: print(...)\<close>: a \<open>JIRAError\<close> is
  caught and nothing is changed, any other exception goes on.
\<close>

definition try_update_customfield :: "world \<Rightarrow> jira_issue option \<Rightarrow> string \<Rightarrow> error + world" where
  "try_update_customfield w issue v =
     (case update_customfield w issue v of
        Inl err \<Rightarrow> if err = JIRAError then Inr w else Inl err
      | Inr w' \<Rightarrow> Inr w')"

text \<open>\<^verbatim>\<open>random.randrange(lo, hi)\<close> and \<^verbatim>\<open>time.sleep(secs)\<close>\<close>

definition randrange :: "env \<Rightarrow> world \<Rightarrow> nat \<Rightarrow> nat \<Rightarrow> nat \<times> world" where
  "randrange e w lo hi = (lo + random e (draws w) mod (hi - lo), w\<lparr>draws := Suc (draws w)\<rparr>)"

definition time_sleep :: "env \<Rightarrow> world \<Rightarrow> nat \<Rightarrow> world" where
  "time_sleep e w secs = (others e w)\<lparr>sleeps := sleeps w @ [secs], draws := draws w\<rparr>"

text \<open>\<^verbatim>\<open>time.sleep(random.randrange(30, 60))\<close>, the wait of \<^verbatim>\<open>_find_jira_issue\<close>\<close>

definition retry_wait :: "env \<Rightarrow> world \<Rightarrow> world" where
  "retry_wait e w = (case randrange e w 30 60 of (secs, w1) \<Rightarrow> time_sleep e w1 secs)"

text \<open>\<^verbatim>\<open>_add_remote_link\<close>\<close>

definition add_remote_link :: "world \<Rightarrow> jira_issue \<Rightarrow> gh_issue \<Rightarrow> world" where
  "add_remote_link w issue gh =
     update_issue w (ji_key issue)
       (\<lambda>i. i\<lparr>ji_remote_links := ji_remote_links i @
               [\<lparr>rl_globalId = Some (gh_html_url gh), rl_url = gh_html_url gh,
                 rl_title = gh_title gh, rl_resolved = False,
                 rl_relationship = ''synced from''\<rparr>]\<rparr>)"

text \<open>\<^verbatim>\<open>_update_link_resolved\<close>\<close>

definition update_link_resolved :: "world \<Rightarrow> gh_issue \<Rightarrow> jira_issue \<Rightarrow> world" where
  "update_link_resolved w gh issue =
     update_issue w (ji_key issue)
       (\<lambda>i. i\<lparr>ji_remote_links :=
               map (\<lambda>link. if rl_globalId link = Some (gh_html_url gh)
                            then link\<lparr>rl_title := gh_title gh,
                                      rl_resolved := (gh_state gh \<noteq> ''open'')\<rparr>
                            else link)
                   (ji_remote_links i)\<rparr>)"

text \<open>
  The loop of \<^verbatim>\<open>_update_github_with_jira_key\<close>: the edit of the title, again after a
  failure and a sleep while retries are left.
\<close>

fun edit_title :: "env \<Rightarrow> world \<Rightarrow> nat \<Rightarrow> string \<Rightarrow> nat \<Rightarrow> error + world" where
  "edit_title e w n t retries =
     (if gh_edit_failures w = 0 then Inr (w\<lparr>gh_titles := (gh_titles w)(n \<mapsto> t)\<rparr>)
      else
        (case retries of
           0 \<Rightarrow> Inl GithubException
         | Suc r \<Rightarrow>
             (case randrange e (w\<lparr>gh_edit_failures := gh_edit_failures w - 1\<rparr>) 1 5 of
                (secs, w1) \<Rightarrow> edit_title e (time_sleep e w1 secs) n t r)))"

declare edit_title.simps [simp del]

text \<open>\<^verbatim>\<open>_update_github_with_jira_key\<close>\<close>

definition update_github_with_jira_key ::
  "env \<Rightarrow> world \<Rightarrow> gh_issue \<Rightarrow> jira_issue \<Rightarrow> error + world" where
  "update_github_with_jira_key e w gh issue =
     (case gh_titles w (gh_number gh) of
        None \<Rightarrow> Inl GithubException
      | Some title \<Rightarrow>
          edit_title e w (gh_number gh) (title @ '' ('' @ ji_key issue @ '')'') 5)"


section \<open>Creating and finding the JIRA issue\<close>

text \<open>
  The values that the name \<^verbatim>\<open>component\<close> of \<^verbatim>\<open>_update_components_field\<close> is bound
  to: first the string from the environment, then, in the loop that binds the same name,
  one component object of the existing issue after the other. \<^verbatim>\<open>!=\<close> between a string
  and a component object is true, as the two are of different types.
\<close>

datatype py_value = PyStr string | PyComponent string

fun component_name :: "py_value \<Rightarrow> string" where
  "component_name (PyComponent n) = n"
| "component_name (PyStr s) = s"

definition py_ne :: "py_value \<Rightarrow> py_value \<Rightarrow> bool" where
  "py_ne a b = (a \<noteq> b)"

text \<open>
  The loop \<^verbatim>\<open>for component in existing_issue.fields.components\<close> with its test
  \<^verbatim>\<open>component.name != component\<close>: the names it appends.
\<close>

fun keep_existing_components :: "py_value list \<Rightarrow> string list" where
  "keep_existing_components [] = []"
| "keep_existing_components (component # rest) =
     (if py_ne (PyStr (component_name component)) component
      then component_name component # keep_existing_components rest
      else keep_existing_components rest)"

text \<open>
  \<^verbatim>\<open>_update_components_field\<close>: the names of the \<^verbatim>\<open>'components'\<close> entry that it
  puts into \<^verbatim>\<open>fields\<close>, or \<open>None\<close> when it leaves \<^verbatim>\<open>fields\<close> as it is.
\<close>

definition update_components_field ::
  "env \<Rightarrow> world \<Rightarrow> jira_issue option \<Rightarrow> error + string list option" where
  "update_components_field e w existing_issue =
     (case environ e ''JIRA_COMPONENT'' of
        None \<Rightarrow> Inr None
      | Some component \<Rightarrow>
          if component = [] then Inr None
          else
            (case (case existing_issue of
                     Some i \<Rightarrow> Inr (ji_project i)
                   | None \<Rightarrow>
                       (case environ e ''JIRA_PROJECT'' of
                          None \<Rightarrow> Inl KeyError
                        | Some p \<Rightarrow> Inr p)) of
               Inl err \<Rightarrow> Inl err
             | Inr project_key \<Rightarrow>
                 (case map_of (projects w) project_key of
                    None \<Rightarrow> Inl JIRAError
                  | Some project_components \<Rightarrow>
                      if component \<notin> set project_components then Inr None
                      else Inr (Some (component #
                        (case existing_issue of
                           None \<Rightarrow> []
                         | Some i \<Rightarrow>
                             keep_existing_components (map PyComponent (ji_components i))))))))"

text \<open>
  \<^verbatim>\<open>_get_jira_issue_type\<close>: the inner loop over the issue types for one label, and the
  outer loop over the labels. \<open>None\<close> is the source's \<^verbatim>\<open>None\<close>.
\<close>

fun match_issue_type :: "string \<Rightarrow> (nat \<times> string) list \<Rightarrow> nat option" where
  "match_issue_type gh_label [] = None"
| "match_issue_type gh_label ((type_id, name) # rest) =
     (if lower gh_label \<in> set [lower name, ''type: '' @ lower name] then Some type_id
      else match_issue_type gh_label rest)"

fun get_jira_issue_type :: "world \<Rightarrow> string list \<Rightarrow> issuetype option" where
  "get_jira_issue_type w [] = None"
| "get_jira_issue_type w (gh_label # rest) =
     (if gh_label = ''Type: Feature Request'' then Some (TypeId 10101)
      else if gh_label = ''Type: Bug :bug:'' then Some (TypeId 10004)
      else
        (case match_issue_type gh_label (issue_types w) of
           Some type_id \<Rightarrow> Some (TypeId type_id)
         | None \<Rightarrow> get_jira_issue_type w rest))"

text \<open>
  \<^verbatim>\<open>_create_jira_issue\<close>. The new issue gets the key of its project and the tracker's
  next number; the returned issue is the one the client holds after its update.
\<close>

definition create_jira_issue :: "env \<Rightarrow> world \<Rightarrow> gh_issue \<Rightarrow> error + (world \<times> jira_issue)" where
  "create_jira_issue e w gh =
     (let issuetype =
            (case get_jira_issue_type w (gh_labels gh) of
               Some t \<Rightarrow> t
             | None \<Rightarrow>
                 TypeName (case environ e ''JIRA_ISSUE_TYPE'' of Some t \<Rightarrow> t | None \<Rightarrow> ''Task''))
      in
      case environ e ''JIRA_PROJECT'' of
        None \<Rightarrow> Inl KeyError
      | Some project \<Rightarrow>
          (case update_components_field e w None of
             Inl err \<Rightarrow> Inl err
           | Inr components \<Rightarrow>
               (case map_of (projects w) project of
                  None \<Rightarrow> Inl JIRAError
                | Some _ \<Rightarrow>
                    (let issue =
                           \<lparr>ji_key = project @ ''-'' @ str_nat (next_issue_number w),
                            ji_project = project,
                            ji_summary = get_summary gh,
                            ji_description = Some (get_description e gh),
                            ji_issuetype = issuetype,
                            ji_labels = map get_jira_label (gh_labels gh),
                            ji_components = (case components of None \<Rightarrow> [] | Some cs \<Rightarrow> cs),
                            ji_customfield_12100 = None,
                            ji_remote_links = [],
                            ji_comments = []\<rparr>;
                         w1 = w\<lparr>issues := issue # issues w,
                                next_issue_number := Suc (next_issue_number w)\<rparr>
                     in
                     case try_update_customfield w1 (Some issue) ''Open'' of
                       Inl err \<Rightarrow> Inl err
                     | Inr w2 \<Rightarrow>
                         (let issue2 = (if customfield_writable w1
                                        then issue\<lparr>ji_customfield_12100 := Some ''Open''\<rparr>
                                        else issue);
                              w3 = add_remote_link w2 issue2 gh
                          in
                          case update_github_with_jira_key e w3 gh issue2 of
                            Inl err \<Rightarrow> Inl err
                          | Inr w4 \<Rightarrow>
                              if gh_state gh \<noteq> ''open''
                              then Inr (update_link_resolved w4 gh issue2, issue2)
                              else Inr (w4, issue2))))))"

text \<open>
  The clause \<^verbatim>\<open>except jira.exceptions.JIRAError: pass\<close> of \<^verbatim>\<open>_find_jira_issue\<close>, for
  an exception raised in its \<^verbatim>\<open>try\<close> block: the clause's expression is evaluated
  first, on the client object; then a \<open>JIRAError\<close> is passed over and any other exception
  goes on.
\<close>

definition except_client_JIRAError :: "env \<Rightarrow> error \<Rightarrow> error + unit" where
  "except_client_JIRAError e raised =
     (if \<not> client_exceptions e then Inl AttributeError
      else if raised = JIRAError then Inr ()
      else Inl raised)"

text \<open>
  The body of \<^verbatim>\<open>if match is not None:\<close> in \<^verbatim>\<open>_find_jira_issue\<close>, with the search for
  the key in the title before it: the world and the issue that it returns, or \<open>None\<close>
  when control goes on to \<^verbatim>\<open>if not make_new\<close>.
\<close>

definition manual_match ::
  "env \<Rightarrow> world \<Rightarrow> gh_issue \<Rightarrow> error + (world \<times> jira_issue) option" where
  "manual_match e w gh =
     (case search_key (gh_title gh) of
        None \<Rightarrow> Inr None
      | Some k \<Rightarrow>
          (case (case jira_issue_get w k of
                   Inl err \<Rightarrow> Inl err
                 | Inr issue \<Rightarrow>
                     (case ji_description issue of
                        None \<Rightarrow> Inl TypeError
                      | Some d \<Rightarrow>
                          if contains d (gh_html_url gh)
                          then Inr (Some (add_remote_link w issue gh, issue))
                          else Inr None)) of
             Inl raised \<Rightarrow>
               (case except_client_JIRAError e raised of
                  Inl err \<Rightarrow> Inl err
                | Inr _ \<Rightarrow> Inr None)
           | Inr found \<Rightarrow> Inr found))"

text \<open>\<^verbatim>\<open>_find_jira_issue\<close>; the issue is \<open>None\<close> where the source returns \<^verbatim>\<open>None\<close>.\<close>

fun find_jira_issue ::
  "env \<Rightarrow> world \<Rightarrow> gh_issue \<Rightarrow> bool \<Rightarrow> nat \<Rightarrow> error + (world \<times> jira_issue option)" where
  "find_jira_issue e w gh make_new retries =
     (case search_issues w (gh_html_url gh) of
        r # _ \<Rightarrow> Inr (w, Some r)
      | [] \<Rightarrow>
          (case manual_match e w gh of
             Inl err \<Rightarrow> Inl err
           | Inr (Some (w', issue)) \<Rightarrow> Inr (w', Some issue)
           | Inr None \<Rightarrow>
               if \<not> make_new then Inr (w, None)
               else
                 (case retries of
                    Suc n \<Rightarrow> find_jira_issue e (retry_wait e w) gh True n
                  | 0 \<Rightarrow>
                      (case create_jira_issue e w gh of
                         Inl err \<Rightarrow> Inl err
                       | Inr (w', issue) \<Rightarrow> Inr (w', Some issue)))))"

declare find_jira_issue.simps [simp del]

text \<open>
  Neither lookup of \<^verbatim>\<open>_find_jira_issue\<close> finds an issue in the world \<open>w\<close>: the search
  by remote link is empty and control passes the manual match without a return or an
  exception.
\<close>

definition nothing_found :: "env \<Rightarrow> world \<Rightarrow> gh_issue \<Rightarrow> bool" where
  "nothing_found e w gh =
     (search_issues w (gh_html_url gh) = [] \<and> manual_match e w gh = Inr None)"


section \<open>The handlers\<close>

text \<open>
  \<^verbatim>\<open>_leave_jira_issue_comment\<close>; \<open>jira_issue\<close> is \<open>None\<close> when the argument is left
  out, and the returned issue is \<open>None\<close> where the source returns \<^verbatim>\<open>None\<close>.
\<close>

definition leave_jira_issue_comment ::
  "env \<Rightarrow> world \<Rightarrow> event \<Rightarrow> string \<Rightarrow> bool \<Rightarrow> jira_issue option
     \<Rightarrow> error + (world \<times> jira_issue option)" where
  "leave_jira_issue_comment e w ev verb should_create jira_issue =
     (case (case jira_issue of
              Some i \<Rightarrow> Inr (w, Some i)
            | None \<Rightarrow> find_jira_issue e w (ev_issue ev) should_create 5) of
        Inl err \<Rightarrow> Inl err
      | Inr (w1, None) \<Rightarrow> Inr (w1, None)
      | Inr (w1, Some i) \<Rightarrow>
          (let user = (case ev_sender ev of Some u \<Rightarrow> u | None \<Rightarrow> gh_user_login (ev_issue ev))
           in Inr (add_comment w1 i
                     (''The [GitHub '' @ (if gh_pull_request (ev_issue ev) then ''PR'' else ''issue'')
                      @ ''|'' @ gh_html_url (ev_issue ev) @ ''] has been '' @ verb @ '' by @'' @ user),
                   Some i)))"

text \<open>\<^verbatim>\<open>handle_issue_opened\<close>\<close>

definition handle_issue_opened :: "env \<Rightarrow> world \<Rightarrow> event \<Rightarrow> error + world" where
  "handle_issue_opened e w ev =
     (case find_jira_issue e w (ev_issue ev) False 5 of
        Inl err \<Rightarrow> Inl err
      | Inr (w1, Some issue) \<Rightarrow> Inr w1
      | Inr (w1, None) \<Rightarrow>
          (case create_jira_issue e w1 (ev_issue ev) of
             Inl err \<Rightarrow> Inl err
           | Inr (w2, issue) \<Rightarrow> Inr w2))"

text \<open>\<^verbatim>\<open>handle_issue_edited\<close>\<close>

definition handle_issue_edited :: "env \<Rightarrow> world \<Rightarrow> event \<Rightarrow> error + world" where
  "handle_issue_edited e w ev =
     (case find_jira_issue e w (ev_issue ev) True 5 of
        Inl err \<Rightarrow> Inl err
      | Inr (w1, None) \<Rightarrow> Inl AttributeError
      | Inr (w1, Some issue) \<Rightarrow>
          (case update_components_field e w1 (Some issue) of
             Inl err \<Rightarrow> Inl err
           | Inr components \<Rightarrow>
               (let w2 = update_issue w1 (ji_key issue)
                           (\<lambda>i. i\<lparr>ji_description := Some (get_description e (ev_issue ev)),
                                  ji_summary := get_summary (ev_issue ev),
                                  ji_components :=
                                    (case components of None \<Rightarrow> ji_components i | Some cs \<Rightarrow> cs)\<rparr>);
                    w3 = update_link_resolved w2 (ev_issue ev) issue
                in
                case leave_jira_issue_comment e w3 ev ''edited'' True (Some issue) of
                  Inl err \<Rightarrow> Inl err
                | Inr (w4, _) \<Rightarrow> Inr w4)))"

text \<open>\<^verbatim>\<open>handle_issue_closed\<close>\<close>

definition handle_issue_closed :: "env \<Rightarrow> world \<Rightarrow> event \<Rightarrow> error + world" where
  "handle_issue_closed e w ev =
     (case leave_jira_issue_comment e w ev ''closed'' False None of
        Inl err \<Rightarrow> Inl err
      | Inr (w1, issue) \<Rightarrow>
          (case try_update_customfield w1 issue ''Closed'' of
             Inl err \<Rightarrow> Inl err
           | Inr w2 \<Rightarrow>
               (case issue of
                  Some i \<Rightarrow> Inr (update_link_resolved w2 (ev_issue ev) i)
                | None \<Rightarrow> Inr w2)))"

text \<open>\<^verbatim>\<open>handle_issue_labeled\<close>\<close>

definition handle_issue_labeled :: "env \<Rightarrow> world \<Rightarrow> event \<Rightarrow> error + world" where
  "handle_issue_labeled e w ev =
     (case find_jira_issue e w (ev_issue ev) (gh_state (ev_issue ev) = ''open'') 5 of
        Inl err \<Rightarrow> Inl err
      | Inr (w1, None) \<Rightarrow> Inr w1
      | Inr (w1, Some jira_issue) \<Rightarrow>
          (let labels = ji_labels jira_issue;
               new_label = get_jira_label (ev_label ev)
           in
           if check_issue_label new_label = None then Inr w1
           else if new_label \<notin> set labels
           then Inr (update_issue w1 (ji_key jira_issue)
                       (\<lambda>i. i\<lparr>ji_labels := labels @ [new_label]\<rparr>))
           else Inr w1))"

text \<open>\<^verbatim>\<open>handle_issue_unlabeled\<close>; \<^verbatim>\<open>labels.remove\<close> takes the first occurrence out.\<close>

definition handle_issue_unlabeled :: "env \<Rightarrow> world \<Rightarrow> event \<Rightarrow> error + world" where
  "handle_issue_unlabeled e w ev =
     (case find_jira_issue e w (ev_issue ev) (gh_state (ev_issue ev) = ''open'') 5 of
        Inl err \<Rightarrow> Inl err
      | Inr (w1, None) \<Rightarrow> Inr w1
      | Inr (w1, Some jira_issue) \<Rightarrow>
          (let labels = ji_labels jira_issue;
               removed_label = get_jira_label (ev_label ev)
           in
           if check_issue_label removed_label = None then Inr w1
           else if removed_label \<in> set labels
           then Inr (update_issue w1 (ji_key jira_issue)
                       (\<lambda>i. i\<lparr>ji_labels := remove1 removed_label labels\<rparr>))
           else Inr w1))"

text \<open>\<^verbatim>\<open>handle_issue_deleted\<close>\<close>

definition handle_issue_deleted :: "env \<Rightarrow> world \<Rightarrow> event \<Rightarrow> error + world" where
  "handle_issue_deleted e w ev =
     (case leave_jira_issue_comment e w ev ''deleted'' False None of
        Inl err \<Rightarrow> Inl err
      | Inr (w1, _) \<Rightarrow> Inr w1)"

text \<open>\<^verbatim>\<open>handle_issue_reopened\<close>\<close>

definition handle_issue_reopened :: "env \<Rightarrow> world \<Rightarrow> event \<Rightarrow> error + world" where
  "handle_issue_reopened e w ev =
     (case leave_jira_issue_comment e w ev ''reopened'' True None of
        Inl err \<Rightarrow> Inl err
      | Inr (w1, issue) \<Rightarrow>
          (case try_update_customfield w1 issue ''Open'' of
             Inl err \<Rightarrow> Inl err
           | Inr w2 \<Rightarrow>
               (case issue of
                  Some i \<Rightarrow> Inr (update_link_resolved w2 (ev_issue ev) i)
                | None \<Rightarrow> Inl AttributeError)))"

text \<open>
  The loop of \<^verbatim>\<open>handle_comment_edited\<close> over the comment bodies of the issue: the
  bodies after it, and whether it found the old body.
\<close>

fun update_first_comment :: "string \<Rightarrow> string \<Rightarrow> string list \<Rightarrow> string list \<times> bool" where
  "update_first_comment old_body new_body [] = ([], False)"
| "update_first_comment old_body new_body (c # cs) =
     (if c = old_body then (new_body # cs, True)
      else (case update_first_comment old_body new_body cs of
              (cs', found) \<Rightarrow> (c # cs', found)))"

text \<open>\<^verbatim>\<open>handle_comment_edited\<close>\<close>

definition handle_comment_edited :: "env \<Rightarrow> world \<Rightarrow> event \<Rightarrow> error + world" where
  "handle_comment_edited e w ev =
     (let gh_comment = ev_comment ev;
          old_gh_body = markdown2wiki e (ev_changes_body_from ev)
      in
      case find_jira_issue e w (ev_issue ev) True 5 of
        Inl err \<Rightarrow> Inl err
      | Inr (w1, None) \<Rightarrow> Inl AttributeError
      | Inr (w1, Some jira_issue) \<Rightarrow>
          (let old_jira_body = get_jira_comment_body e gh_comment (Some old_gh_body)
           in
           case update_first_comment old_jira_body (get_jira_comment_body e gh_comment None)
                  (comments w1 (ji_key jira_issue)) of
             (cs', found) \<Rightarrow>
               if found
               then Inr (update_issue w1 (ji_key jira_issue) (\<lambda>i. i\<lparr>ji_comments := cs'\<rparr>))
               else Inr (add_comment w1 jira_issue (get_jira_comment_body e gh_comment None))))"


section \<open>Sample inputs\<close>

text \<open>
  A process whose converter returns the file as it is, with no other invocation at work
  and a \<^verbatim>\<open>jira.JIRA\<close> client; a tracker with one project and no issue; GitHub issue 42.
\<close>

definition env0 :: env where
  "env0 = \<lparr>environ = [''JIRA_PROJECT'' \<mapsto> ''PROJ'', ''JIRA_COMPONENT'' \<mapsto> ''esp32''],
           markdown2confluence = (\<lambda>s. Some s), random = (\<lambda>n. 7 * n + 3),
           others = (\<lambda>w. w), client_exceptions = False\<rparr>"

definition world0 :: world where
  "world0 = \<lparr>issues = [], projects = [(''PROJ'', [''esp32'', ''wifi''])],
             issue_types = [(10004, ''Bug''), (10002, ''Task'')],
             customfield_writable = True, next_issue_number = 101,
             gh_titles = [42 \<mapsto> ''Crash on boot''], gh_edit_failures = 0,
             sleeps = [], draws = 0\<rparr>"

definition gh42 :: gh_issue where
  "gh42 = \<lparr>gh_number = 42, gh_title = ''Crash on boot'', gh_body = Some ''It crashes'',
           gh_html_url = ''https://github.com/o/r/issues/42'', gh_user_login = ''alice'',
           gh_labels = [], gh_state = ''open'', gh_pull_request = False\<rparr>"

definition comment1 :: gh_comment where
  "comment1 = \<lparr>ghc_body = Some ''new text'',
               ghc_html_url = ''https://github.com/o/r/issues/42#issuecomment-1'',
               ghc_user_login = ''carol''\<rparr>"

definition event_of :: "gh_issue \<Rightarrow> event" where
  "event_of gh = \<lparr>ev_issue = gh, ev_sender = Some ''bob'', ev_label = ''bug'',
                  ev_comment = comment1, ev_changes_body_from = Some ''old text''\<rparr>"

text \<open>An issue made by hand on the tracker, which names the GitHub issue in its text.\<close>

definition issue7 :: jira_issue where
  "issue7 = \<lparr>ji_key = ''PROJ-7'', ji_project = ''PROJ'', ji_summary = ''Crash on boot'',
             ji_description = Some ''Copied by hand from https://github.com/o/r/issues/42'',
             ji_issuetype = TypeName ''Task'', ji_labels = [''bug''],
             ji_components = [''esp32'', ''wifi''], ji_customfield_12100 = None,
             ji_remote_links = [], ji_comments = []\<rparr>"

text \<open>A converter whose output is longer than the limit.\<close>

definition env_long :: env where
  "env_long = env0\<lparr>markdown2confluence := (\<lambda>s. Some (replicate 16385 CHR ''x''))\<rparr>"

text \<open>The same issue once it is linked to GitHub issue 42 and carries a synced comment.\<close>

definition link42 :: remote_link where
  "link42 = \<lparr>rl_globalId = Some ''https://github.com/o/r/issues/42'',
             rl_url = ''https://github.com/o/r/issues/42'', rl_title = ''Crash on boot'',
             rl_resolved = False, rl_relationship = ''synced from''\<rparr>"

definition issue7_linked :: jira_issue where
  "issue7_linked = issue7\<lparr>ji_labels := [''bug'', ''Status:-In-Progress''],
      ji_remote_links := [link42],
      ji_comments := [''Seen on two boards.'',
        get_jira_comment_body env0 comment1 (Some (markdown2wiki env0 (Some ''old text'')))]\<rparr>"

text \<open>GitHub issue 42 with the key of that issue at the end of its title.\<close>

definition gh42_keyed :: gh_issue where
  "gh42_keyed = gh42\<lparr>gh_title := ''Crash on boot (PROJ-7)''\<rparr>"

definition world_manual :: world where
  "world_manual = world0\<lparr>issues := [issue7]\<rparr>"

definition world_linked :: world where
  "world_linked = world0\<lparr>issues := [issue7_linked]\<rparr>"

section \<open>The summary\<close>

lemma slug_at_not_space: "c \<noteq> CHR '' '' \<Longrightarrow> slug_at (c # cs) = []"
  by (simp add: slug_at_def lit_def)

lemma slug_at_space_not_paren: "c \<noteq> CHR ''('' \<Longrightarrow> slug_at (CHR '' '' # c # cs) = []"
  by (simp add: slug_at_def lit_def)

lemma sub_slug_no_space: "CHR '' '' \<notin> set p \<Longrightarrow> sub_slug (p @ s) = p @ sub_slug s"
proof (induction p)
  case Nil
  then show ?case by simp
next
  case (Cons a p)
  then have "a \<noteq> CHR '' ''" by auto
  then have "slug_at (a # p @ s) = []" by (rule slug_at_not_space)
  with Cons show ?case by simp
qed

lemma digit_char_not_space: "digit_char d \<noteq> CHR '' ''"
proof -
  have "d mod 10 < length ''0123456789''" by simp
  then have "''0123456789'' ! (d mod 10) \<in> set ''0123456789''" by (rule nth_mem)
  then show ?thesis unfolding digit_char_def by auto
qed

lemma str_nat_no_space: "CHR '' '' \<notin> set (str_nat n)"
proof (induction n rule: str_nat.induct)
  case (1 n)
  show ?case
  proof (cases "n < 10")
    case True
    then show ?thesis
      by (subst str_nat.simps) (simp add: not_sym [OF digit_char_not_space])
  next
    case False
    with 1 show ?thesis
      by (subst str_nat.simps) (simp add: not_sym [OF digit_char_not_space])
  qed
qed

text \<open>
  Claim C6, as amended. The summary is \<^verbatim>\<open>{PR|GH} #{number}:\<close> followed by the text
  \<^verbatim>\<open> {title}\<close> (a space, then the title) from which \<^verbatim>\<open>re.sub\<close> has taken out every
  match of \<^verbatim>\<open> \([\w]+-[\d]+\)\<close>, wherever in the title it stands; the prefix up to the
  colon is never touched and every character outside a match is kept.
\<close>

theorem get_summary_removes_every_slug:
  "get_summary gh =
     (if gh_pull_request gh then ''PR'' else ''GH'') @ '' #'' @ str_nat (gh_number gh) @ '':''
     @ sub_slug ('' '' @ gh_title gh)"
proof -
  let ?k = "if gh_pull_request gh then ''PR'' else ''GH''"
  let ?n = "''#'' @ str_nat (gh_number gh) @ '':''"
  let ?t = "'' '' @ gh_title gh"
  have k: "CHR '' '' \<notin> set ?k" by simp
  have n: "CHR '' '' \<notin> set ?n" by (simp add: str_nat_no_space)
  have "get_summary gh = sub_slug (?k @ (CHR '' '' # ?n @ ?t))"
    by (simp add: get_summary_def)
  also have "\<dots> = ?k @ sub_slug (CHR '' '' # ?n @ ?t)"
    using k by (rule sub_slug_no_space)
  also have "sub_slug (CHR '' '' # ?n @ ?t) = CHR '' '' # sub_slug (?n @ ?t)"
    by (simp add: slug_at_space_not_paren)
  also have "sub_slug (?n @ ?t) = ?n @ sub_slug ?t"
    using n by (rule sub_slug_no_space)
  finally show ?thesis by simp
qed

text \<open>
  Claim C6 as it is written fails: the title \<^verbatim>\<open>Fix (ABC-1) crash\<close> has a key in
  parentheses that is not at its end, and the summary does not reproduce it.
\<close>

theorem get_summary_inner_slug_counterexample:
  "get_summary (gh42\<lparr>gh_number := 7, gh_title := ''Fix (ABC-1) crash''\<rparr>) = ''GH #7: Fix crash'' \<and>
   get_summary (gh42\<lparr>gh_number := 7, gh_title := ''Fix (ABC-1) crash''\<rparr>)
     \<noteq> ''GH #7: Fix (ABC-1) crash''"
  by (simp add: get_summary_def gh42_def str_nat.simps digit_char_def slug_at_def lit_def
      is_word_def is_digit_def)

section \<open>The converted text\<close>

text \<open>
  Claim C10. When the converter succeeds on the markdown file, the text that
  \<^verbatim>\<open>_markdown2wiki\<close> returns has at most 16384 characters: a result longer than that
  is cut to its first 16376 characters followed by \<^verbatim>\<open>'\n\n[...]'\<close>, and a shorter one
  is returned as it is.
\<close>

theorem markdown2wiki_bound:
  assumes "markdown2confluence e (if endswith md [nl] then md else md @ [nl]) = Some result"
  shows "length (markdown2wiki e (Some md)) \<le> 16384 \<and>
         (16384 < length result \<longrightarrow>
            markdown2wiki e (Some md) = take 16376 result @ [nl, nl] @ ''[...]'') \<and>
         (length result \<le> 16384 \<longrightarrow> markdown2wiki e (Some md) = result)"
  using assms by (simp add: markdown2wiki_def)

theorem markdown2wiki_bound_witness:
  "markdown2confluence env_long (''abc'' @ [nl]) = Some (replicate 16385 CHR ''x'') \<and>
   length (markdown2wiki env_long (Some ''abc'')) \<le> 16384 \<and>
   markdown2wiki env_long (Some ''abc'') = replicate 16376 CHR ''x'' @ [nl, nl] @ ''[...]''"
proof -
  have conv: "markdown2confluence env_long
                (if endswith ''abc'' [nl] then ''abc'' else ''abc'' @ [nl])
              = Some (replicate 16385 CHR ''x'')"
    by (simp add: env_long_def env0_def)
  have long: "16384 < length (replicate 16385 CHR ''x'')" by simp
  from markdown2wiki_bound [OF conv] long
  show ?thesis by (simp add: env_long_def env0_def)
qed

section \<open>The components field\<close>

lemma keep_existing_components_all: "keep_existing_components (map PyComponent cs) = cs"
  by (induction cs) (simp_all add: py_ne_def)

text \<open>
  Claim C4 does not hold of the code. With \<^verbatim>\<open>JIRA_COMPONENT=esp32\<close> and an existing
  issue whose components are \<^verbatim>\<open>esp32\<close> and \<^verbatim>\<open>wifi\<close>, the components field lists
  \<^verbatim>\<open>esp32\<close> twice: the loop compares each component's name with the component
  itself, never with the configured name, and keeps them all.
\<close>

theorem update_components_field_duplicates:
  "update_components_field env0 world0 (Some issue7) = Inr (Some [''esp32'', ''esp32'', ''wifi''])"
  by (simp add: update_components_field_def env0_def world0_def issue7_def py_ne_def)


section \<open>Finding the issue\<close>

lemmas lookup_eval = find_jira_issue.simps search_issues_def manual_match_def lit_def key_at_def
  is_upper_def is_digit_def is_space_def star_class_def at_end_def jira_issue_get_def
  except_client_JIRAError_def

lemma find_jira_issue_linked:
  "search_issues w (gh_html_url gh) = r # rs \<Longrightarrow>
   find_jira_issue e w gh make_new retries = Inr (w, Some r)"
  by (simp add: find_jira_issue.simps)

text \<open>
  Were \<^verbatim>\<open>jira.exceptions.JIRAError\<close> the \<open>JIRAError\<close> class, a failed fetch of the
  issue named in the title would be passed over.
\<close>

lemma manual_match_lookup_error_caught:
  assumes "client_exceptions e" "search_key (gh_title gh) = Some k"
    "jira_issue_get w k = Inl JIRAError"
  shows "manual_match e w gh = Inr None"
  using assms by (simp add: manual_match_def except_client_JIRAError_def)

text \<open>
  Claim C8 does not hold of the code. The title of the GitHub issue ends in
  \<^verbatim>\<open>(PROJ-7)\<close>, the tracker has no issue of that key, so \<^verbatim>\<open>jira.issue\<close> raises
  \<open>JIRAError\<close>; the process runs with a \<^verbatim>\<open>jira.JIRA\<close> client. The \<^verbatim>\<open>except\<close>
  clause then looks up \<^verbatim>\<open>exceptions\<close> on the client, and the resolution ends with
  \<open>AttributeError\<close> instead of going on to \<^verbatim>\<open>if not make_new\<close>.
\<close>

theorem find_jira_issue_lookup_error_raises:
  "jira_issue_get world0 ''PROJ-7'' = Inl JIRAError \<and>
   find_jira_issue env0 world0 (gh42\<lparr>gh_title := ''Crash on boot (PROJ-7)''\<rparr>) False 5
     = Inl AttributeError \<and>
   find_jira_issue env0 world0 (gh42\<lparr>gh_title := ''Crash on boot (PROJ-7)''\<rparr>) True 5
     = Inl AttributeError"
  by (simp add: lookup_eval env0_def world0_def gh42_def)

section \<open>Closing an issue\<close>

lemma handle_issue_closed_not_found:
  "find_jira_issue e w (ev_issue ev) False 5 = Inr (w1, None) \<Longrightarrow>
   handle_issue_closed e w ev = Inl AttributeError"
  by (simp add: handle_issue_closed_def leave_jira_issue_comment_def try_update_customfield_def
      update_customfield_def)

text \<open>
  Claim C2 does not hold of the code. GitHub issue 42 is closed and the tracker has no
  issue for it: the resolution returns \<^verbatim>\<open>None\<close>, and \<^verbatim>\<open>handle_issue_closed\<close> calls
  \<^verbatim>\<open>update\<close> on it, which raises \<open>AttributeError\<close>. \<^verbatim>\<open>handle_issue_deleted\<close>, on the
  same event, returns with nothing changed.
\<close>

theorem handle_issue_closed_raises:
  "find_jira_issue env0 world0 (gh42\<lparr>gh_state := ''closed''\<rparr>) False 5 = Inr (world0, None) \<and>
   handle_issue_closed env0 world0 (event_of (gh42\<lparr>gh_state := ''closed''\<rparr>))
     = Inl AttributeError \<and>
   handle_issue_deleted env0 world0 (event_of (gh42\<lparr>gh_state := ''closed''\<rparr>)) = Inr world0"
  by (simp add: handle_issue_closed_def handle_issue_deleted_def leave_jira_issue_comment_def
      try_update_customfield_def update_customfield_def lookup_eval env0_def world0_def gh42_def
      event_of_def)


section \<open>Labels\<close>

lemma startswith_map_cong:
  "(\<And>c a. a \<in> set p \<Longrightarrow> (f c = a) = (g c = a)) \<Longrightarrow>
   startswith (map f s) p = startswith (map g s) p"
proof (induction p arbitrary: s)
  case Nil
  then show ?case by (simp add: startswith_def)
next
  case (Cons a p)
  show ?case
  proof (cases s)
    case Nil
    then show ?thesis by (simp add: startswith_def)
  next
    case (Cons c s')
    have "startswith (map f s') p = startswith (map g s') p"
      by (rule Cons.IH) (simp add: Cons.prems)
    moreover have "(f c = a) = (g c = a)" by (rule Cons.prems) simp
    ultimately show ?thesis using Cons by (simp add: startswith_def)
  qed
qed

lemma lower_char_space: "lower_char CHR '' '' = CHR '' ''"
  by (simp add: lower_char_def)

lemma lower_char_hyphen: "lower_char CHR ''-'' = CHR ''-''"
  by (simp add: lower_char_def)

lemma startswith_lower_jira_label:
  assumes "CHR '' '' \<notin> set p" "CHR ''-'' \<notin> set p"
  shows "startswith (lower (get_jira_label l)) p = startswith (lower l) p"
proof -
  have "startswith (map (\<lambda>c. lower_char (if c = CHR '' '' then CHR ''-'' else c)) l) p
      = startswith (map lower_char l) p"
  proof (rule startswith_map_cong)
    fix c a assume "a \<in> set p"
    with assms have "a \<noteq> CHR '' ''" "a \<noteq> CHR ''-''" by auto
    then show "(lower_char (if c = CHR '' '' then CHR ''-'' else c) = a) = (lower_char c = a)"
      by (auto simp: lower_char_space lower_char_hyphen)
  qed
  then show ?thesis
    by (simp add: lower_def get_jira_label_def replace_space_hyphen_def comp_def)
qed

lemma check_issue_label_reserved:
  assumes "startswith (lower l) ''status:'' \<or> startswith (lower l) ''resolution:''"
  shows "check_issue_label (get_jira_label l) = None"
proof -
  have "startswith (lower (get_jira_label l)) ''status:'' = startswith (lower l) ''status:''"
    by (rule startswith_lower_jira_label) simp_all
  moreover
  have "startswith (lower (get_jira_label l)) ''resolution:'' = startswith (lower l) ''resolution:''"
    by (rule startswith_lower_jira_label) simp_all
  ultimately show ?thesis using assms by (simp add: check_issue_label_def)
qed

text \<open>
  Claim C9. For a label whose name starts with \<^verbatim>\<open>status:\<close> or \<^verbatim>\<open>resolution:\<close> in any
  letter case, \<^verbatim>\<open>handle_issue_labeled\<close> and \<^verbatim>\<open>handle_issue_unlabeled\<close> do nothing
  beyond finding the JIRA issue: they end in the world that \<^verbatim>\<open>_find_jira_issue\<close>
  leaves, with no update of any label. Where the issue is found by its remote link, the
  world, and with it every label set, is as before.
\<close>

theorem reserved_label_not_mirrored:
  assumes "startswith (lower (ev_label ev)) ''status:'' \<or>
           startswith (lower (ev_label ev)) ''resolution:''"
  shows "handle_issue_labeled e w ev =
           (case find_jira_issue e w (ev_issue ev) (gh_state (ev_issue ev) = ''open'') 5 of
              Inl err \<Rightarrow> Inl err | Inr (w1, found) \<Rightarrow> Inr w1) \<and>
         handle_issue_unlabeled e w ev =
           (case find_jira_issue e w (ev_issue ev) (gh_state (ev_issue ev) = ''open'') 5 of
              Inl err \<Rightarrow> Inl err | Inr (w1, found) \<Rightarrow> Inr w1) \<and>
         (search_issues w (gh_html_url (ev_issue ev)) \<noteq> [] \<longrightarrow>
            handle_issue_labeled e w ev = Inr w \<and> handle_issue_unlabeled e w ev = Inr w)"
proof -
  have none: "check_issue_label (get_jira_label (ev_label ev)) = None"
    using assms by (rule check_issue_label_reserved)
  have l: "handle_issue_labeled e w ev =
           (case find_jira_issue e w (ev_issue ev) (gh_state (ev_issue ev) = ''open'') 5 of
              Inl err \<Rightarrow> Inl err | Inr (w1, found) \<Rightarrow> Inr w1)"
    by (simp add: handle_issue_labeled_def none split: sum.splits option.splits prod.splits)
  have u: "handle_issue_unlabeled e w ev =
           (case find_jira_issue e w (ev_issue ev) (gh_state (ev_issue ev) = ''open'') 5 of
              Inl err \<Rightarrow> Inl err | Inr (w1, found) \<Rightarrow> Inr w1)"
    by (simp add: handle_issue_unlabeled_def none split: sum.splits option.splits prod.splits)
  have "handle_issue_labeled e w ev = Inr w \<and> handle_issue_unlabeled e w ev = Inr w"
    if "search_issues w (gh_html_url (ev_issue ev)) \<noteq> []"
  proof -
    from that obtain r rs where "search_issues w (gh_html_url (ev_issue ev)) = r # rs"
      by (cases "search_issues w (gh_html_url (ev_issue ev))") auto
    then have "find_jira_issue e w (ev_issue ev) (gh_state (ev_issue ev) = ''open'') 5
        = Inr (w, Some r)"
      by (rule find_jira_issue_linked)
    with l u show ?thesis by simp
  qed
  with l u show ?thesis by blast
qed

theorem reserved_label_not_mirrored_witness:
  "startswith (lower ''Status: In Progress'') ''status:'' \<and>
   search_issues world_linked (gh_html_url gh42) = [issue7_linked] \<and>
   ''Status:-In-Progress'' \<in> set (ji_labels issue7_linked) \<and>
   handle_issue_labeled env0 world_linked ((event_of gh42)\<lparr>ev_label := ''Status: In Progress''\<rparr>)
     = Inr world_linked \<and>
   handle_issue_unlabeled env0 world_linked ((event_of gh42)\<lparr>ev_label := ''Status: In Progress''\<rparr>)
     = Inr world_linked"
proof -
  let ?ev = "(event_of gh42)\<lparr>ev_label := ''Status: In Progress''\<rparr>"
  have p: "startswith (lower ''Status: In Progress'') ''status:''"
    by (simp add: startswith_def lower_def lower_char_def)
  then have p': "startswith (lower (ev_label ?ev)) ''status:'' \<or>
                 startswith (lower (ev_label ?ev)) ''resolution:''"
    by simp
  have s: "search_issues world_linked (gh_html_url gh42) = [issue7_linked]"
    by (simp add: search_issues_def world_linked_def world0_def issue7_linked_def issue7_def
        link42_def gh42_def)
  then have s': "search_issues world_linked (gh_html_url (ev_issue ?ev)) \<noteq> []"
    by (simp add: event_of_def)
  have l: "''Status:-In-Progress'' \<in> set (ji_labels issue7_linked)"
    by (simp add: issue7_linked_def)
  from reserved_label_not_mirrored [OF p', of env0 world_linked] s'
  have "handle_issue_labeled env0 world_linked ?ev = Inr world_linked \<and>
        handle_issue_unlabeled env0 world_linked ?ev = Inr world_linked"
    by blast
  with p s l show ?thesis by blast
qed


section \<open>Editing a comment\<close>

lemma update_first_comment_eq:
  "update_first_comment old new cs =
     (if old \<in> set cs then (cs[length (takeWhile (\<lambda>c. c \<noteq> old) cs) := new], True)
      else (cs, False))"
  by (induction cs) auto

text \<open>
  Claim C7. Let the JIRA issue of the event be found. If one of its comments is equal to
  the body computed from the previous text of the GitHub comment, the first such comment
  is replaced, where it stands, by the body computed from the new text, and no comment is
  added; if none is equal, the body computed from the new text is added as a new comment
  and the handler returns without an exception.
\<close>

theorem comment_edited_updates_in_place:
  assumes "find_jira_issue e w (ev_issue ev) True 5 = Inr (w1, Some issue)"
  shows
    "(let old_body = get_jira_comment_body e (ev_comment ev)
                       (Some (markdown2wiki e (ev_changes_body_from ev)));
          new_body = get_jira_comment_body e (ev_comment ev) None;
          cs = comments w1 (ji_key issue)
      in
      (old_body \<in> set cs \<longrightarrow>
         handle_comment_edited e w ev =
           Inr (update_issue w1 (ji_key issue)
                  (\<lambda>i. i\<lparr>ji_comments :=
                           cs[length (takeWhile (\<lambda>c. c \<noteq> old_body) cs) := new_body]\<rparr>))) \<and>
      (old_body \<notin> set cs \<longrightarrow>
         handle_comment_edited e w ev = Inr (add_comment w1 issue new_body)))"
  using assms by (simp add: handle_comment_edited_def update_first_comment_eq Let_def)

theorem comment_edited_updates_in_place_witness:
  "find_jira_issue env0 world_linked gh42 True 5 = Inr (world_linked, Some issue7_linked) \<and>
   comments world_linked ''PROJ-7'' =
     [''Seen on two boards.'',
      ''[GitHub issue comment|https://github.com/o/r/issues/42#issuecomment-1] by @carol:''
        @ [nl, nl] @ ''old text'' @ [nl]] \<and>
   map_sum id (\<lambda>w. comments w ''PROJ-7'') (handle_comment_edited env0 world_linked (event_of gh42)) =
     Inr [''Seen on two boards.'',
      ''[GitHub issue comment|https://github.com/o/r/issues/42#issuecomment-1] by @carol:''
        @ [nl, nl] @ ''new text'' @ [nl]] \<and>
   map_sum id (\<lambda>w. comments w ''PROJ-7'')
     (handle_comment_edited env0 world_linked
        ((event_of gh42)\<lparr>ev_changes_body_from := Some ''older text''\<rparr>)) =
     Inr [''Seen on two boards.'',
      ''[GitHub issue comment|https://github.com/o/r/issues/42#issuecomment-1] by @carol:''
        @ [nl, nl] @ ''old text'' @ [nl],
      ''[GitHub issue comment|https://github.com/o/r/issues/42#issuecomment-1] by @carol:''
        @ [nl, nl] @ ''new text'' @ [nl]]"
proof -
  let ?ev2 = "(event_of gh42)\<lparr>ev_changes_body_from := Some ''older text''\<rparr>"
  have found: "find_jira_issue env0 world_linked gh42 True 5
     = Inr (world_linked, Some issue7_linked)"
    by (rule find_jira_issue_linked [where rs = "[]"])
       (simp add: search_issues_def world_linked_def world0_def issue7_linked_def issue7_def
          link42_def gh42_def)
  have f1: "find_jira_issue env0 world_linked (ev_issue (event_of gh42)) True 5
     = Inr (world_linked, Some issue7_linked)"
    using found by (simp add: event_of_def)
  have f2: "find_jira_issue env0 world_linked (ev_issue ?ev2) True 5
     = Inr (world_linked, Some issue7_linked)"
    using found by (simp add: event_of_def)
  show ?thesis
    using comment_edited_updates_in_place [OF f1] comment_edited_updates_in_place [OF f2] found
    by (simp add: Let_def comments_def update_issue_def add_comment_def world_linked_def
        world0_def issue7_linked_def issue7_def event_of_def comment1_def
        get_jira_comment_body_def markdown2wiki_def env0_def endswith_def nl_def)
qed


section \<open>Opening an issue\<close>

lemma manual_match_found:
  "manual_match e w gh = Inr (Some (w', issue)) \<Longrightarrow> w' = add_remote_link w issue gh"
  by (auto simp: manual_match_def split: option.splits sum.splits if_splits)

lemma find_jira_issue_no_create:
  assumes "find_jira_issue e w gh False retries = Inr (w1, Some issue)"
  shows "(search_issues w (gh_html_url gh) \<noteq> [] \<longrightarrow> w1 = w) \<and>
         (search_issues w (gh_html_url gh) = [] \<longrightarrow> w1 = add_remote_link w issue gh)"
  using assms
  by (subst (asm) find_jira_issue.simps)
     (auto split: list.splits sum.splits option.splits dest: manual_match_found)

lemma keys_update_issue:
  "(\<And>i. ji_key (f i) = ji_key i) \<Longrightarrow>
   map ji_key (issues (update_issue w k f)) = map ji_key (issues w)"
  by (simp add: update_issue_def comp_def)

lemma keys_add_remote_link:
  "map ji_key (issues (add_remote_link w issue gh)) = map ji_key (issues w)"
  unfolding add_remote_link_def by (rule keys_update_issue) simp

text \<open>
  Claim C1, as amended. When \<^verbatim>\<open>_find_jira_issue\<close> with \<^verbatim>\<open>make_new=False\<close> finds an
  issue for the event, \<^verbatim>\<open>handle_issue_opened\<close> returns in the world that the
  resolution leaves and creates no issue: the tracker holds the same issues as before.
  Where the search by remote link finds the issue, nothing at all is changed; where only
  the manual match finds it, the one change is the remote link that the match adds to
  the found issue.
\<close>

theorem opened_existing_creates_nothing:
  assumes "find_jira_issue e w (ev_issue ev) False 5 = Inr (w1, Some issue)"
  shows "handle_issue_opened e w ev = Inr w1 \<and>
         map ji_key (issues w1) = map ji_key (issues w) \<and>
         (search_issues w (gh_html_url (ev_issue ev)) \<noteq> [] \<longrightarrow> w1 = w) \<and>
         (search_issues w (gh_html_url (ev_issue ev)) = [] \<longrightarrow>
            w1 = add_remote_link w issue (ev_issue ev))"
proof -
  have h: "handle_issue_opened e w ev = Inr w1"
    using assms by (simp add: handle_issue_opened_def)
  note nc = find_jira_issue_no_create [OF assms]
  have "map ji_key (issues w1) = map ji_key (issues w)"
  proof (cases "search_issues w (gh_html_url (ev_issue ev)) = []")
    case True
    with nc have "w1 = add_remote_link w issue (ev_issue ev)" by simp
    then show ?thesis by (simp add: keys_add_remote_link)
  next
    case False
    with nc show ?thesis by simp
  qed
  with h nc show ?thesis by simp
qed

lemma find_manual:
  "find_jira_issue env0 world_manual gh42_keyed False 5
     = Inr (add_remote_link world_manual issue7 gh42_keyed, Some issue7)"
  by (simp add: lookup_eval env0_def world_manual_def world0_def gh42_keyed_def gh42_def
      issue7_def startswith_def)

theorem opened_existing_creates_nothing_witness:
  "find_jira_issue env0 world_manual gh42_keyed False 5
     = Inr (add_remote_link world_manual issue7 gh42_keyed, Some issue7) \<and>
   find_jira_issue env0 world_linked gh42 False 5 = Inr (world_linked, Some issue7_linked) \<and>
   handle_issue_opened env0 world_manual (event_of gh42_keyed)
     = Inr (add_remote_link world_manual issue7 gh42_keyed) \<and>
   handle_issue_opened env0 world_linked (event_of gh42) = Inr world_linked \<and>
   map ji_key (issues (add_remote_link world_manual issue7 gh42_keyed)) = [''PROJ-7'']"
proof -
  have m: "find_jira_issue env0 world_manual (ev_issue (event_of gh42_keyed)) False 5
     = Inr (add_remote_link world_manual issue7 gh42_keyed, Some issue7)"
    by (simp add: event_of_def find_manual)
  have s: "search_issues world_linked (gh_html_url gh42) = [issue7_linked]"
    by (simp add: search_issues_def world_linked_def world0_def issue7_linked_def issue7_def
        link42_def gh42_def)
  then have l: "find_jira_issue env0 world_linked (ev_issue (event_of gh42)) False 5
     = Inr (world_linked, Some issue7_linked)"
    by (simp add: event_of_def find_jira_issue_linked)
  have k: "map ji_key (issues world_manual) = [''PROJ-7'']"
    by (simp add: world_manual_def issue7_def)
  from opened_existing_creates_nothing [OF m] opened_existing_creates_nothing [OF l] m l k
  show ?thesis by (simp add: event_of_def)
qed

text \<open>
  Claim C1 as it is written fails: for an issue that only the manual match finds, the
  handler changes the tracker, which gets a remote link it did not have.
\<close>

theorem opened_manual_match_counterexample:
  "find_jira_issue env0 world_manual gh42_keyed False 5
     = Inr (add_remote_link world_manual issue7 gh42_keyed, Some issue7) \<and>
   handle_issue_opened env0 world_manual (event_of gh42_keyed)
     = Inr (add_remote_link world_manual issue7 gh42_keyed) \<and>
   remote_links world_manual ''PROJ-7'' = [] \<and>
   remote_links (add_remote_link world_manual issue7 gh42_keyed) ''PROJ-7''
     = [link42\<lparr>rl_title := ''Crash on boot (PROJ-7)''\<rparr>]"
  by (simp add: handle_issue_opened_def event_of_def find_manual)
     (simp add: remote_links_def add_remote_link_def update_issue_def world_manual_def
        world0_def issue7_def link42_def gh42_keyed_def gh42_def)

section \<open>The retries of the resolution\<close>

lemma find_jira_issue_retry:
  "nothing_found e w gh \<Longrightarrow>
   find_jira_issue e w gh True (Suc n) = find_jira_issue e (retry_wait e w) gh True n"
  by (subst find_jira_issue.simps) (simp add: nothing_found_def)

lemma find_jira_issue_create:
  "nothing_found e w gh \<Longrightarrow>
   find_jira_issue e w gh True 0 =
     (case create_jira_issue e w gh of
        Inl err \<Rightarrow> Inl err | Inr (w', issue) \<Rightarrow> Inr (w', Some issue))"
  by (subst find_jira_issue.simps) (simp add: nothing_found_def)

lemma find_jira_issue_after_retries:
  "(\<And>k. k \<le> n \<Longrightarrow> nothing_found e ((retry_wait e ^^ k) w) gh) \<Longrightarrow>
   find_jira_issue e w gh True n =
     (case create_jira_issue e ((retry_wait e ^^ n) w) gh of
        Inl err \<Rightarrow> Inl err | Inr (w', issue) \<Rightarrow> Inr (w', Some issue))"
proof (induction n arbitrary: w)
  case 0
  from 0 [of 0] show ?case by (simp add: find_jira_issue_create)
next
  case (Suc n)
  from Suc.prems [of 0] have nf: "nothing_found e w gh" by simp
  have "nothing_found e ((retry_wait e ^^ k) (retry_wait e w)) gh" if "k \<le> n" for k
    using Suc.prems [of "Suc k"] that by (simp add: funpow_swap1)
  then have "find_jira_issue e (retry_wait e w) gh True n =
     (case create_jira_issue e ((retry_wait e ^^ n) (retry_wait e w)) gh of
        Inl err \<Rightarrow> Inl err | Inr (w', issue) \<Rightarrow> Inr (w', Some issue))"
    by (rule Suc.IH)
  with nf show ?case by (simp add: find_jira_issue_retry funpow_swap1)
qed

lemma retry_wait_sleeps:
  "sleeps (retry_wait e w) = sleeps w @ [30 + random e (draws w) mod 30]"
  by (simp add: retry_wait_def randrange_def time_sleep_def)

lemma retry_wait_draws: "draws (retry_wait e w) = Suc (draws w)"
  by (simp add: retry_wait_def randrange_def time_sleep_def)

lemma retry_waits_draws: "draws ((retry_wait e ^^ n) w) = draws w + n"
  by (induction n) (simp_all add: retry_wait_draws)

lemma retry_waits_sleeps:
  "sleeps ((retry_wait e ^^ n) w) =
     sleeps w @ map (\<lambda>k. 30 + random e (draws w + k) mod 30) [0..<n]"
  by (induction n) (simp_all add: retry_wait_sleeps retry_waits_draws)

text \<open>
  Claim C3. If neither lookup finds an issue in the world of the first attempt nor in
  the world after each of the five waits, \<^verbatim>\<open>_find_jira_issue\<close> with
  \<^verbatim>\<open>make_new=True\<close> returns what \<^verbatim>\<open>_create_jira_issue\<close> returns in the world after
  exactly five waits, the new issue when the creation succeeds; the five waits are five
  sleeps of 30 to 59 seconds. The function is total, so the recursion ends.
\<close>

theorem find_jira_issue_creates_after_five_waits:
  assumes "\<forall>k\<le>5. nothing_found e ((retry_wait e ^^ k) w) gh"
  shows "find_jira_issue e w gh True 5 =
           (case create_jira_issue e ((retry_wait e ^^ 5) w) gh of
              Inl err \<Rightarrow> Inl err | Inr (w', issue) \<Rightarrow> Inr (w', Some issue)) \<and>
         sleeps ((retry_wait e ^^ 5) w) =
           sleeps w @ map (\<lambda>k. 30 + random e (draws w + k) mod 30) [0..<5]"
proof
  show "find_jira_issue e w gh True 5 =
           (case create_jira_issue e ((retry_wait e ^^ 5) w) gh of
              Inl err \<Rightarrow> Inl err | Inr (w', issue) \<Rightarrow> Inr (w', Some issue))"
    using assms by (intro find_jira_issue_after_retries) simp
  show "sleeps ((retry_wait e ^^ 5) w) =
           sleeps w @ map (\<lambda>k. 30 + random e (draws w + k) mod 30) [0..<5]"
    by (rule retry_waits_sleeps)
qed

lemma retry_waits_world0:
  "(retry_wait env0 ^^ k) world0 =
     world0\<lparr>sleeps := map (\<lambda>j. 30 + (7 * j + 3) mod 30) [0..<k], draws := k\<rparr>"
proof (induction k)
  case 0
  show ?case by (simp add: world0_def)
next
  case (Suc k)
  then show ?case
    by (simp add: retry_wait_def randrange_def time_sleep_def env0_def world0_def)
qed

lemma nothing_found_world0: "nothing_found env0 ((retry_wait env0 ^^ k) world0) gh42"
  by (simp add: retry_waits_world0)
     (simp add: nothing_found_def search_issues_def manual_match_def world0_def gh42_def
        key_at_def lit_def)

lemmas create_eval = create_jira_issue_def update_components_field_def
  try_update_customfield_def update_customfield_def update_issue_def add_remote_link_def
  update_github_with_jira_key_def edit_title.simps str_nat.simps digit_char_def Let_def upt_rec

theorem find_jira_issue_creates_after_five_waits_witness:
  "nothing_found env0 world0 gh42 \<and>
   nothing_found env0 ((retry_wait env0 ^^ 5) world0) gh42 \<and>
   map_sum id (\<lambda>(w, i). (map ji_key (issues w), sleeps w, map_option ji_key i))
     (find_jira_issue env0 world0 gh42 True 5)
   = Inr ([''PROJ-101''], [33, 40, 47, 54, 31], Some ''PROJ-101'')"
proof -
  have nf: "\<forall>k\<le>5. nothing_found env0 ((retry_wait env0 ^^ k) world0) gh42"
    by (simp add: nothing_found_world0)
  have n0: "nothing_found env0 world0 gh42"
    using nothing_found_world0 [of 0] by simp
  have "map_sum id (\<lambda>(w, i). (map ji_key (issues w), sleeps w, map_option ji_key i))
     (find_jira_issue env0 world0 gh42 True 5)
   = Inr ([''PROJ-101''], [33, 40, 47, 54, 31], Some ''PROJ-101'')"
    using find_jira_issue_creates_after_five_waits [OF nf]
    by (simp add: retry_waits_world0)
       (simp add: create_eval env0_def world0_def gh42_def)
  with n0 nothing_found_world0 [of 5] show ?thesis by blast
qed

section \<open>Reopening an issue\<close>

text \<open>
  Claim C5, as amended. \<^verbatim>\<open>handle_issue_reopened\<close> resolves the issue with
  \<^verbatim>\<open>should_create=True\<close>: when neither lookup finds an issue at any of the six
  attempts, the handler waits five times, creates a new JIRA issue, leaves the comment
  on it, sets its field to \<^verbatim>\<open>Open\<close> and updates its remote link.
\<close>

theorem reopened_creates_when_missing:
  assumes "\<forall>k\<le>5. nothing_found e ((retry_wait e ^^ k) w) (ev_issue ev)"
  shows "handle_issue_reopened e w ev =
     (case create_jira_issue e ((retry_wait e ^^ 5) w) (ev_issue ev) of
        Inl err \<Rightarrow> Inl err
      | Inr (w1, issue) \<Rightarrow>
          (case try_update_customfield
                  (add_comment w1 issue
                     (''The [GitHub '' @ (if gh_pull_request (ev_issue ev) then ''PR'' else ''issue'')
                      @ ''|'' @ gh_html_url (ev_issue ev) @ ''] has been reopened by @''
                      @ (case ev_sender ev of Some u \<Rightarrow> u | None \<Rightarrow> gh_user_login (ev_issue ev))))
                  (Some issue) ''Open'' of
             Inl err \<Rightarrow> Inl err
           | Inr w2 \<Rightarrow> Inr (update_link_resolved w2 (ev_issue ev) issue)))"
proof -
  have "find_jira_issue e w (ev_issue ev) True 5 =
     (case create_jira_issue e ((retry_wait e ^^ 5) w) (ev_issue ev) of
        Inl err \<Rightarrow> Inl err | Inr (w', issue) \<Rightarrow> Inr (w', Some issue))"
    using assms by (intro find_jira_issue_after_retries) simp
  then show ?thesis
    by (simp add: handle_issue_reopened_def leave_jira_issue_comment_def Let_def
        split: sum.splits prod.splits)
qed

theorem reopened_creates_when_missing_witness:
  "nothing_found env0 world0 gh42 \<and>
   map_sum id (\<lambda>w. (map ji_key (issues w), comments w ''PROJ-101'', sleeps w))
     (handle_issue_reopened env0 world0 (event_of gh42))
   = Inr ([''PROJ-101''],
          [''The [GitHub issue|https://github.com/o/r/issues/42] has been reopened by @bob''],
          [33, 40, 47, 54, 31])"
proof -
  have nf: "\<forall>k\<le>5. nothing_found env0 ((retry_wait env0 ^^ k) world0) (ev_issue (event_of gh42))"
    by (simp add: nothing_found_world0 event_of_def)
  have n0: "nothing_found env0 world0 gh42"
    using nothing_found_world0 [of 0] by simp
  have "map_sum id (\<lambda>w. (map ji_key (issues w), comments w ''PROJ-101'', sleeps w))
     (handle_issue_reopened env0 world0 (event_of gh42))
   = Inr ([''PROJ-101''],
          [''The [GitHub issue|https://github.com/o/r/issues/42] has been reopened by @bob''],
          [33, 40, 47, 54, 31])"
    using reopened_creates_when_missing [OF nf]
    by (simp add: retry_waits_world0 event_of_def)
       (simp add: create_eval env0_def world0_def gh42_def add_comment_def comments_def
          update_link_resolved_def event_of_def)
  with n0 show ?thesis by blast
qed

text \<open>
  Claim C5 as it is written fails: the tracker has no issue for GitHub issue 42, the
  resolution without creation returns \<^verbatim>\<open>None\<close>, and \<^verbatim>\<open>handle_issue_reopened\<close> leaves
  a tracker with the new issue \<^verbatim>\<open>PROJ-101\<close>.
\<close>

theorem reopened_creates_counterexample:
  "issues world0 = [] \<and>
   find_jira_issue env0 world0 gh42 False 5 = Inr (world0, None) \<and>
   map_sum id (\<lambda>w. map ji_key (issues w)) (handle_issue_reopened env0 world0 (event_of gh42))
     = Inr [''PROJ-101'']"
proof -
  have nf: "\<And>k. k \<le> 5 \<Longrightarrow> nothing_found env0 ((retry_wait env0 ^^ k) world0) gh42"
    by (simp add: nothing_found_world0)
  have f: "find_jira_issue env0 world0 gh42 True 5 =
     (case create_jira_issue env0 ((retry_wait env0 ^^ 5) world0) gh42 of
        Inl err \<Rightarrow> Inl err | Inr (w', issue) \<Rightarrow> Inr (w', Some issue))"
    using nf by (rule find_jira_issue_after_retries)
  have a: "issues world0 = []" by (simp add: world0_def)
  have b: "find_jira_issue env0 world0 gh42 False 5 = Inr (world0, None)"
    by (simp add: lookup_eval world0_def gh42_def)
  have c: "map_sum id (\<lambda>w. map ji_key (issues w)) (handle_issue_reopened env0 world0 (event_of gh42))
     = Inr [''PROJ-101'']"
    by (simp add: handle_issue_reopened_def leave_jira_issue_comment_def event_of_def f
          retry_waits_world0)
       (simp add: create_eval env0_def world0_def gh42_def add_comment_def
          update_link_resolved_def)
  from a b c show ?thesis by blast
qed

end
